theory Spec2Isabelle
  imports Main
begin

section \<open>Strings\<close>

text \<open>
  A JavaScript string is modelled as a HOL \<open>string\<close>, a list of characters. The
  server compares the characters of the texts it receives with five ASCII characters only
  and copies every other character unchanged.
\<close>

abbreviation BACKSLASH :: char where "BACKSLASH \<equiv> CHR 0x5C"
abbreviation DQUOTE :: char where "DQUOTE \<equiv> CHR 0x22"
abbreviation NEWLINE :: char where "NEWLINE \<equiv> CHR 0x0A"
abbreviation CARRIAGE_RETURN :: char where "CARRIAGE_RETURN \<equiv> CHR 0x0D"
abbreviation TAB :: char where "TAB \<equiv> CHR 0x09"

text \<open>
  \<^verbatim>\<open>str.replace(/c/g, r)\<close> for a pattern that matches the single character \<open>c\<close> and a
  replacement text \<open>r\<close> without dollar patterns: the scan goes left to right, every match
  is replaced, and the scan resumes after the match (the replacement is never rescanned).
\<close>

fun replace :: "char \<Rightarrow> string \<Rightarrow> string \<Rightarrow> string" where
  "replace c r [] = []"
| "replace c r (x # xs) = (if x = c then r @ replace c r xs else x # replace c r xs)"

text \<open>
  \<^verbatim>\<open>
  function escapeSparqlString(str) {
      if (!str) return str;
      return str
          .replace(/\\/g, '\\\\')  // Escape backslashes first
          .replace(/"/g, '\\"')    // Escape double quotes
          .replace(/\n/g, '\\n')   // Escape newlines
          .replace(/\r/g, '\\r')   // Escape carriage returns
          .replace(/\t/g, '\\t');  // Escape tabs
  }
  \<close>
  The argument is a text or absent (\<open>None\<close> stands for \<^verbatim>\<open>undefined\<close> and \<^verbatim>\<open>null\<close>);
  an absent value and the empty text are the falsy ones.
\<close>

definition escapeSparqlString :: "string option \<Rightarrow> string option" where
  "escapeSparqlString str =
     (case str of
        None \<Rightarrow> None
      | Some s \<Rightarrow>
          if s = [] then Some s
          else Some (replace TAB [BACKSLASH, CHR ''t'']
                    (replace CARRIAGE_RETURN [BACKSLASH, CHR ''r'']
                    (replace NEWLINE [BACKSLASH, CHR ''n'']
                    (replace DQUOTE [BACKSLASH, DQUOTE]
                    (replace BACKSLASH [BACKSLASH, BACKSLASH] s))))))"

text \<open>
  A template literal \<^verbatim>\<open>${v}\<close> converts the value to a text: an absent value is
  rendered as the word \<^verbatim>\<open>undefined\<close>.
\<close>

definition interpolate :: "string option \<Rightarrow> string" where
  "interpolate v = (case v of None \<Rightarrow> ''undefined'' | Some s \<Rightarrow> s)"

subsection \<open>The five substitutions, as the specification words them\<close>

text \<open>
  One substitution replaces every occurrence of a character by a text; the specification
  lists five of them, to be applied one after the other, each to the output of the
  previous one.
\<close>

definition substitute :: "char \<times> string \<Rightarrow> string \<Rightarrow> string" where
  "substitute cr s = concat (map (\<lambda>x. if x = fst cr then snd cr else [x]) s)"

definition five_substitutions :: "(char \<times> string) list" where
  "five_substitutions =
     [(BACKSLASH, [BACKSLASH, BACKSLASH]),
      (DQUOTE, [BACKSLASH, DQUOTE]),
      (NEWLINE, [BACKSLASH, CHR ''n'']),
      (CARRIAGE_RETURN, [BACKSLASH, CHR ''r'']),
      (TAB, [BACKSLASH, CHR ''t''])]"

definition apply_in_order :: "(char \<times> string) list \<Rightarrow> string \<Rightarrow> string" where
  "apply_in_order subs s = foldl (\<lambda>acc cr. substitute cr acc) s subs"

subsection \<open>String literals of the query language\<close>

text \<open>
  The SPARQL 1.1 grammar of a double-quoted literal:
  \<^verbatim>\<open>STRING_LITERAL2 ::= '"' ( ([^#x22#x5C#xA#xD]) | ECHAR )* '"'\<close> and
  \<^verbatim>\<open>ECHAR ::= '\' [tbnrf\"']\<close>. \<open>ECHAR\<close> gives the character an escape stands for.
  The codepoint escapes, which the query language replaces before this grammar applies,
  are not part of it.
\<close>

definition ECHAR :: "char \<Rightarrow> char option" where
  "ECHAR e =
     (if e = CHR ''t'' then Some TAB
      else if e = CHR ''b'' then Some (CHR 0x08)
      else if e = CHR ''n'' then Some NEWLINE
      else if e = CHR ''r'' then Some CARRIAGE_RETURN
      else if e = CHR ''f'' then Some (CHR 0x0C)
      else if e = BACKSLASH then Some BACKSLASH
      else if e = DQUOTE then Some DQUOTE
      else if e = CHR 0x27 then Some (CHR 0x27)
      else None)"

text \<open>
  \<open>string_body\<close> reads the text after the opening quote up to the closing quote and
  returns the characters denoted and the input left; \<open>None\<close> is a syntax error.
\<close>

fun string_body :: "string \<Rightarrow> (string \<times> string) option" where
  "string_body [] = None"
| "string_body (c # cs) =
     (if c = DQUOTE then Some ([], cs)
      else if c = BACKSLASH then
        (case cs of
           [] \<Rightarrow> None
         | e # rest \<Rightarrow>
             (case ECHAR e of
                None \<Rightarrow> None
              | Some d \<Rightarrow> map_option (\<lambda>(v, r). (d # v, r)) (string_body rest)))
      else if c = NEWLINE \<or> c = CARRIAGE_RETURN then None
      else map_option (\<lambda>(v, r). (c # v, r)) (string_body cs))"

definition STRING_LITERAL2 :: "string \<Rightarrow> string option" where
  "STRING_LITERAL2 s =
     (case s of
        [] \<Rightarrow> None
      | c # cs \<Rightarrow>
          if c = DQUOTE then
            (case string_body cs of
               None \<Rightarrow> None
             | Some (v, r) \<Rightarrow> if r = [] then Some v else None)
          else None)"


subsection \<open>The statements of an update, as the query language reads them\<close>

text \<open>
  The part of the SPARQL 1.1 Update grammar that the update text of this server uses:
  a prologue of \<^verbatim>\<open>PREFIX\<close> declarations, then \<^verbatim>\<open>INSERT DATA { ... }\<close> with triples that
  each end with a dot. White space is \<^verbatim>\<open>WS ::= #x20 | #x9 | #xD | #xA\<close>; an IRI reference is
  \<^verbatim>\<open>IRIREF ::= '<' ([^<>"{}|^`\]-[#x00-#x20])* '>'\<close>.
\<close>

definition WS :: "char \<Rightarrow> bool" where
  "WS c \<longleftrightarrow> c = CHR 0x20 \<or> c = TAB \<or> c = CARRIAGE_RETURN \<or> c = NEWLINE"

definition iri_char :: "char \<Rightarrow> bool" where
  "iri_char c \<longleftrightarrow>
     c \<noteq> CHR ''<'' \<and> c \<noteq> CHR ''>'' \<and> c \<noteq> DQUOTE \<and> c \<noteq> CHR ''{'' \<and> c \<noteq> CHR ''}''
     \<and> c \<noteq> CHR 0x7C \<and> c \<noteq> CHR 0x5E \<and> c \<noteq> CHR 0x60 \<and> c \<noteq> BACKSLASH
     \<and> (0x20::nat) < of_char c"

text \<open>
  \<open>IRIREF_body\<close> reads the text after the opening angle bracket up to the closing one.
\<close>

fun IRIREF_body :: "string \<Rightarrow> (string \<times> string) option" where
  "IRIREF_body [] = None"
| "IRIREF_body (c # cs) =
     (if c = CHR ''>'' then Some ([], cs)
      else if iri_char c then map_option (\<lambda>(v, r). (c # v, r)) (IRIREF_body cs)
      else None)"

text \<open>
  Keywords and prefixed names are runs of letters, digits, underscore, hyphen and colon.
\<close>

definition name_char :: "char \<Rightarrow> bool" where
  "name_char c \<longleftrightarrow>
     ((0x41::nat) \<le> of_char c \<and> (of_char c :: nat) \<le> 0x5A)
     \<or> ((0x61::nat) \<le> of_char c \<and> (of_char c :: nat) \<le> 0x7A)
     \<or> ((0x30::nat) \<le> of_char c \<and> (of_char c :: nat) \<le> 0x39)
     \<or> c = CHR ''_'' \<or> c = CHR ''-'' \<or> c = CHR '':''"

datatype token = IRIREF string | STRING string | NAME string | DOT | LBRACE | RBRACE

function tokenize :: "string \<Rightarrow> token list option" where
  "tokenize [] = Some []"
| "tokenize (c # cs) =
     (if WS c then tokenize cs
      else if c = CHR ''<'' then
        (case IRIREF_body cs of
           None \<Rightarrow> None
         | Some (v, r) \<Rightarrow> map_option (Cons (IRIREF v)) (tokenize r))
      else if c = DQUOTE then
        (case string_body cs of
           None \<Rightarrow> None
         | Some (v, r) \<Rightarrow> map_option (Cons (STRING v)) (tokenize r))
      else if c = CHR ''.'' then map_option (Cons DOT) (tokenize cs)
      else if c = CHR ''{'' then map_option (Cons LBRACE) (tokenize cs)
      else if c = CHR ''}'' then map_option (Cons RBRACE) (tokenize cs)
      else if name_char c then
        map_option (Cons (NAME (c # takeWhile name_char cs))) (tokenize (dropWhile name_char cs))
      else None)"
  by pat_completeness auto
termination
proof (relation "measure length", goal_cases)
  case 1
  then show ?case by simp
next
  case (2 c cs)
  then show ?case by simp
next
  case (3 c cs x2 x y)
  have "length r < length s" if "IRIREF_body s = Some (v, r)" for s v r
    using that by (induction s arbitrary: v) (auto split: if_splits)
  from this [of cs x y] 3 show ?case by simp
next
  case (4 c cs x2 x y)
  have "length r < length s" if "string_body s = Some (v, r)" for s v r
    using that
  proof (induction s arbitrary: v rule: string_body.induct)
    case 1
    then show ?case by simp
  next
    case (2 c cs)
    then show ?case
      by (fastforce split: if_splits list.splits option.splits)
  qed
  from this [of cs x y] 4 show ?case by simp
next
  case (5 c cs)
  then show ?case by simp
next
  case (6 c cs)
  then show ?case by simp
next
  case (7 c cs)
  then show ?case by simp
next
  case (8 c cs)
  then show ?case by (simp add: length_dropWhile_le less_Suc_eq_le)
qed

text \<open>
  A statement is a triple of terms. A prefixed name stands for the IRI of its prefix, as
  the prologue declares it, followed by the local part.
\<close>

datatype rdf_term = Iri string | Literal string

type_synonym triple = "rdf_term \<times> rdf_term \<times> rdf_term"

type_synonym prefixes = "(string \<times> string) list"

fun prologue :: "token list \<Rightarrow> prefixes \<times> token list" where
  "prologue (NAME k # NAME p # IRIREF ns # rest) =
     (if k = ''PREFIX'' \<and> p \<noteq> [] \<and> last p = CHR '':''
      then (case prologue rest of (ps, r) \<Rightarrow> ((butlast p, ns) # ps, r))
      else ([], NAME k # NAME p # IRIREF ns # rest))"
| "prologue ts = ([], ts)"

definition expand :: "prefixes \<Rightarrow> string \<Rightarrow> string option" where
  "expand ps name =
     (if CHR '':'' \<in> set name
      then map_option (\<lambda>ns. ns @ tl (dropWhile (\<lambda>c. c \<noteq> CHR '':'') name))
             (map_of ps (takeWhile (\<lambda>c. c \<noteq> CHR '':'') name))
      else None)"

fun term_of :: "prefixes \<Rightarrow> token \<Rightarrow> rdf_term option" where
  "term_of ps (IRIREF i) = Some (Iri i)"
| "term_of ps (STRING s) = Some (Literal s)"
| "term_of ps (NAME n) = map_option Iri (expand ps n)"
| "term_of ps DOT = None"
| "term_of ps LBRACE = None"
| "term_of ps RBRACE = None"

fun is_iri :: "rdf_term \<Rightarrow> bool" where
  "is_iri (Iri i) = True"
| "is_iri (Literal s) = False"

fun triples :: "prefixes \<Rightarrow> token list \<Rightarrow> triple list option" where
  "triples ps [] = None"
| "triples ps (t # ts) =
     (if t = RBRACE then (if ts = [] then Some [] else None)
      else
        (case ts of
           p # ob # d # rest \<Rightarrow>
             (case (term_of ps t, term_of ps p, term_of ps ob) of
                (Some s', Some p', Some o') \<Rightarrow>
                  if d = DOT \<and> is_iri s' \<and> is_iri p'
                  then map_option (Cons (s', p', o')) (triples ps rest)
                  else None
              | _ \<Rightarrow> None)
         | _ \<Rightarrow> None))"

definition statements :: "string \<Rightarrow> triple list option" where
  "statements text =
     (case tokenize text of
        None \<Rightarrow> None
      | Some ts \<Rightarrow>
          (case prologue ts of
             (ps, NAME i # NAME d # LBRACE # rest) \<Rightarrow>
               if i = ''INSERT'' \<and> d = ''DATA'' then triples ps rest else None
           | _ \<Rightarrow> None))"

definition SKOS :: string where
  "SKOS = ''http://www.w3.org/2004/02/skos/core#''"

section \<open>Values exchanged with the client and the store\<close>

text \<open>
  JSON values, as \<^verbatim>\<open>express.json()\<close> and \<^verbatim>\<open>axios\<close> hand them over and as
  \<^verbatim>\<open>res.json\<close> sends them. An object keeps its keys in the order of the literal.
\<close>

datatype json =
    JNull
  | JBool bool
  | JNum int
  | JStr string
  | JArr "json list"
  | JObj "(string \<times> json) list"

text \<open>JavaScript truthiness; \<open>None\<close> is \<^verbatim>\<open>undefined\<close>.\<close>

definition truthy_text :: "string option \<Rightarrow> bool" where
  "truthy_text v = (case v of None \<Rightarrow> False | Some s \<Rightarrow> s \<noteq> [])"

definition truthy :: "json option \<Rightarrow> bool" where
  "truthy v =
     (case v of
        None \<Rightarrow> False
      | Some JNull \<Rightarrow> False
      | Some (JBool b) \<Rightarrow> b
      | Some (JNum n) \<Rightarrow> n \<noteq> 0
      | Some (JStr s) \<Rightarrow> s \<noteq> []
      | Some (JArr _) \<Rightarrow> True
      | Some (JObj _) \<Rightarrow> True)"

text \<open>
  What \<^verbatim>\<open>res.status(code).json(value)\<close> sends to the client.
\<close>

record http_reply =
  statusCode :: int
  jsonBody :: json

text \<open>
  The response object of \<^verbatim>\<open>axios\<close> (\<^verbatim>\<open>response.status\<close>, \<^verbatim>\<open>response.data\<close>). The
  type of the data depends on the endpoint.
\<close>

record 'd response =
  status :: int
  data :: 'd

text \<open>
  What a handler can catch. A rejected \<^verbatim>\<open>axios\<close> call throws an error that carries the
  store's response when there was one (\<^verbatim>\<open>error.response\<close>) and none when the store could
  not be reached; reading a property of \<^verbatim>\<open>undefined\<close> throws a TypeError, which has no
  \<^verbatim>\<open>response\<close> property.
\<close>

datatype js_error =
    AxiosError "json option response option" string
  | TypeError string

definition error_response :: "js_error \<Rightarrow> json option response option" where
  "error_response e = (case e of AxiosError r _ \<Rightarrow> r | TypeError _ \<Rightarrow> None)"

section \<open>Configuration\<close>

definition GRAPHDB_URL :: string where
  "GRAPHDB_URL = ''http://localhost:7200''"

definition REPOSITORY_ID :: string where
  "REPOSITORY_ID = ''conceptual-repo''"

definition GRAPHDB_SPARQL_ENDPOINT :: string where
  "GRAPHDB_SPARQL_ENDPOINT = GRAPHDB_URL @ ''/repositories/'' @ REPOSITORY_ID @ ''/statements''"

definition BASE_URI :: string where
  "BASE_URI = ''http://conceptual-machines.org/''"

section \<open>POST /insert-term\<close>

text \<open>
  The body of the request, after \<^verbatim>\<open>const { label, comment, parentId } = req.body\<close>. The
  three fields are typed as the specification's data model types them: a text, or absent.
\<close>

record insert_body =
  label :: "string option"
  comment :: "string option"
  parentId :: "string option"

text \<open>
  \<^verbatim>\<open>Date.now()\<close> is an integer number of milliseconds; a template literal renders it in
  decimal, with a minus sign when it is negative.
\<close>

fun digits :: "nat \<Rightarrow> string" where
  "digits n =
     (if n < 10 then [''0123456789'' ! n]
      else digits (n div 10) @ [''0123456789'' ! (n mod 10)])"

declare digits.simps [simp del]

definition numberToString :: "int \<Rightarrow> string" where
  "numberToString i = (if i < 0 then ''-'' @ digits (nat (- i)) else digits (nat i))"

text \<open>
  \<^verbatim>\<open>
  const termId = `Term_${Date.now()}`;
  const termUri = `${BASE_URI}${termId}`;
  \<close>
  The reading of the clock is a parameter of the model.
\<close>

definition termId :: "int \<Rightarrow> string" where
  "termId now = ''Term_'' @ numberToString now"

definition termUri :: "int \<Rightarrow> string" where
  "termUri now = BASE_URI @ termId now"

text \<open>
  \<^verbatim>\<open>
  const sparqlUpdate = `
       PREFIX skos: <http://www.w3.org/2004/02/skos/core#>
       INSERT DATA {
           <${termUri}> skos:prefLabel "${escapedLabel}" .
           ${escapedComment ? `<${termUri}> skos:note "${escapedComment}" .` : ''}
           ${parentId ? `<${parentId}> skos:narrower <${termUri}> .` : `<${BASE_URI}Root> skos:narrower <${termUri}> .`}
       }
      `;
  \<close>
\<close>

definition sparqlUpdate :: "string \<Rightarrow> string option \<Rightarrow> string option \<Rightarrow> string option \<Rightarrow> string" where
  "sparqlUpdate uri escapedLabel escapedComment parent =
     [NEWLINE] @ ''     PREFIX skos: <http://www.w3.org/2004/02/skos/core#>'' @
     [NEWLINE] @ ''     INSERT DATA {'' @
     [NEWLINE] @ ''         <'' @ uri @ ''> skos:prefLabel '' @ [DQUOTE] @ interpolate escapedLabel
       @ [DQUOTE] @ '' .'' @
     [NEWLINE] @ ''         '' @
       (if truthy_text escapedComment
        then ''<'' @ uri @ ''> skos:note '' @ [DQUOTE] @ interpolate escapedComment @ [DQUOTE] @ '' .''
        else []) @
     [NEWLINE] @ ''         '' @
       (if truthy_text parent
        then ''<'' @ interpolate parent @ ''> skos:narrower <'' @ uri @ ''> .''
        else ''<'' @ BASE_URI @ ''Root> skos:narrower <'' @ uri @ ''> .'') @
     [NEWLINE] @ ''     }'' @
     [NEWLINE] @ ''    ''"

text \<open>
  The store is a parameter: \<open>post url body\<close> is what \<^verbatim>\<open>await axios.post(url, body, ...)\<close>
  yields, a response (\<open>Inr\<close>) or a thrown error (\<open>Inl\<close>). A handler returns what it sends
  to the client, or the exception that escapes it, together with the list of calls it
  made to the store.
\<close>

type_synonym 'd store = "string \<Rightarrow> string \<Rightarrow> js_error + 'd response"

type_synonym handled = "(js_error + http_reply) \<times> (string \<times> string) list"

text \<open>
  \<^verbatim>\<open>
  } catch (error) {
      const statusCode = error.response ? error.response.status : 500;
      const errorMessage = error.response && error.response.data
          ? error.response.data
          : 'Failed to insert Term into GraphDB.';
      res.status(statusCode).json({ error: errorMessage });
  }
  \<close>
  Both handlers have this block, with their own generic message.
\<close>

definition catch_block :: "string \<Rightarrow> js_error \<Rightarrow> http_reply" where
  "catch_block generic error =
     (let statusCode = (case error_response error of Some r \<Rightarrow> status r | None \<Rightarrow> 500);
          errorMessage =
            (case error_response error of
               Some r \<Rightarrow> (if truthy (data r) then the (data r) else JStr generic)
             | None \<Rightarrow> JStr generic)
      in \<lparr>statusCode = statusCode, jsonBody = JObj [(''error'', errorMessage)]\<rparr>)"

definition insertTerm :: "json option store \<Rightarrow> int \<Rightarrow> insert_body \<Rightarrow> handled" where
  "insertTerm post now body =
     (if \<not> truthy_text (label body) then
        (Inr \<lparr>statusCode = 400, jsonBody = JObj [(''error'', JStr ''Term label is required.'')]\<rparr>, [])
      else
        let escapedLabel = escapeSparqlString (label body);
            escapedComment = escapeSparqlString (comment body);
            update = sparqlUpdate (termUri now) escapedLabel escapedComment (parentId body)
        in (case post GRAPHDB_SPARQL_ENDPOINT update of
              Inr response \<Rightarrow>
                if status response = 204 then
                  Inr \<lparr>statusCode = 200,
                       jsonBody = JObj [(''message'', JStr ''Term inserted successfully!''),
                                        (''termId'', JStr (termId now))]\<rparr>
                else
                  Inr \<lparr>statusCode = status response,
                       jsonBody = JObj [(''message'', JStr ''Term might have been inserted, but received unexpected status.''),
                                        (''graphDbStatus'', JNum (status response))]\<rparr>
            | Inl error \<Rightarrow> Inr (catch_block ''Failed to insert Term into GraphDB.'' error),
            [(GRAPHDB_SPARQL_ENDPOINT, update)]))"

section \<open>GET /graph\<close>

definition query :: string where
  "query =
     [NEWLINE] @ ''     '' @
     [NEWLINE] @ ''      PREFIX skos: <http://www.w3.org/2004/02/skos/core#>'' @
     [NEWLINE] @ ''      PREFIX cm: <'' @ BASE_URI @ ''>'' @
     [NEWLINE] @ ''      '' @
     [NEWLINE] @ ''      SELECT ?node ?label ?comment ?source ?relationshipType'' @
     [NEWLINE] @ ''      WHERE {'' @
     [NEWLINE] @
     [NEWLINE] @ ''      '' @
     [NEWLINE] @ ''       # Get node labels'' @
     [NEWLINE] @ ''        OPTIONAL { ?node skos:prefLabel ?label } .'' @
     [NEWLINE] @ ''        '' @
     [NEWLINE] @ ''        # Get node comments if available'' @
     [NEWLINE] @ ''        OPTIONAL { ?node skos:note ?comment } .'' @
     [NEWLINE] @ ''        '' @
     [NEWLINE] @ ''        # Get connections between nodes with explicit relationship type'' @
     [NEWLINE] @ ''        OPTIONAL {'' @
     [NEWLINE] @ [TAB] @ ''        ?source skos:narrower ?node .'' @
     [NEWLINE] @ ''    '' @ [TAB] @ ''    BIND(skos:narrower AS ?relationshipType)'' @
     [NEWLINE] @ ''        }'' @
     [NEWLINE] @ ''        '' @
     [NEWLINE] @ ''        # Filter to include only nodes that are Terms or Roles or connected to conceptual-map'' @
     [NEWLINE] @ ''        FILTER('' @
     [NEWLINE] @ ''          CONTAINS(STR(?nodeType), '' @ [DQUOTE] @ ''Term'' @ [DQUOTE] @ '') || '' @
     [NEWLINE] @ ''          CONTAINS(STR(?nodeType), '' @ [DQUOTE] @ ''Role'' @ [DQUOTE] @ '') ||'' @
     [NEWLINE] @ ''          CONTAINS(STR(?node), '' @ [DQUOTE] @ ''Root'' @ [DQUOTE] @ '') ||'' @
     [NEWLINE] @ ''          EXISTS { cm:Root skos:narrower ?node }'' @
     [NEWLINE] @ ''        )'' @
     [NEWLINE] @ ''      }'' @
     [NEWLINE] @ ''    ''"

text \<open>
  One row of the tabular result (an element of \<^verbatim>\<open>response.data.results.bindings\<close>) maps
  the name of a variable to the value bound to it; a variable without a binding has no
  entry. \<^verbatim>\<open>binding.node.value\<close> is \<open>binding ''node''\<close> when the entry is there and a
  TypeError when it is not.
\<close>

type_synonym binding = "string \<rightharpoonup> string"

record processedData =
  nodes :: "json list"
  edges :: "json list"

text \<open>
  \<^verbatim>\<open>
  binding => {
    processedData.nodes.push({
      id: binding.node.value,
      label: binding.label ? binding.label.value : '',
      comment: binding.comment ? binding.comment.value : ''
    });
    if (binding.source) {
      processedData.edges.push({
        source: binding.source.value,
        target: binding.node.value,
        type: binding.relationshipType ? binding.relationshipType.value : ''
      });
    }
  }
  \<close>
\<close>

definition value_or_empty :: "string option \<Rightarrow> string" where
  "value_or_empty v = (case v of Some s \<Rightarrow> s | None \<Rightarrow> [])"

definition push_binding :: "processedData \<Rightarrow> binding \<Rightarrow> js_error + processedData" where
  "push_binding pd binding =
     (case binding ''node'' of
        None \<Rightarrow> Inl (TypeError ''Cannot read properties of undefined (reading value)'')
      | Some node \<Rightarrow>
          let pd1 = pd\<lparr>nodes := nodes pd @
                      [JObj [(''id'', JStr node),
                             (''label'', JStr (value_or_empty (binding ''label''))),
                             (''comment'', JStr (value_or_empty (binding ''comment'')))]]\<rparr>
          in (case binding ''source'' of
                Some source \<Rightarrow>
                  Inr (pd1\<lparr>edges := edges pd1 @
                         [JObj [(''source'', JStr source),
                                (''target'', JStr node),
                                (''type'', JStr (value_or_empty (binding ''relationshipType'')))]]\<rparr>)
              | None \<Rightarrow> Inr pd1))"

text \<open>\<^verbatim>\<open>bindings.forEach(callback)\<close>: the rows in order; a throw ends the loop.\<close>

fun forEach :: "binding list \<Rightarrow> processedData \<Rightarrow> js_error + processedData" where
  "forEach [] pd = Inr pd"
| "forEach (binding # bindings) pd =
     (case push_binding pd binding of
        Inl error \<Rightarrow> Inl error
      | Inr pd' \<Rightarrow> forEach bindings pd')"

definition flatten :: "binding list \<Rightarrow> js_error + processedData" where
  "flatten bindings = forEach bindings \<lparr>nodes = [], edges = []\<rparr>"

text \<open>
  The data of a query response is the list of rows, or \<open>None\<close> for a body without
  \<^verbatim>\<open>results.bindings\<close>, where reading \<^verbatim>\<open>response.data.results.bindings.length\<close> throws.
\<close>

definition graph_try :: "binding list option response \<Rightarrow> js_error + http_reply" where
  "graph_try response =
     (if status response = 200 then
        (case data response of
           None \<Rightarrow> Inl (TypeError ''Cannot read properties of undefined (reading bindings)'')
         | Some bindings \<Rightarrow>
             (case flatten bindings of
                Inl error \<Rightarrow> Inl error
              | Inr pd \<Rightarrow>
                  Inr \<lparr>statusCode = 200,
                       jsonBody = JObj [(''nodes'', JArr (nodes pd)), (''edges'', JArr (edges pd))]\<rparr>))
      else
        Inr \<lparr>statusCode = status response,
             jsonBody = JObj [(''message'', JStr ''Data might have been fetched, but received unexpected status.''),
                              (''graphDbStatus'', JNum (status response))]\<rparr>)"

definition fetchGraph :: "binding list option store \<Rightarrow> handled" where
  "fetchGraph get =
     ((case (case get (GRAPHDB_URL @ ''/repositories/'' @ REPOSITORY_ID) query of
               Inl error \<Rightarrow> Inl error
             | Inr response \<Rightarrow> graph_try response) of
         Inl error \<Rightarrow> Inr (catch_block ''Failed to fetch data from GraphDB.'' error)
       | Inr reply \<Rightarrow> Inr reply),
      [(GRAPHDB_URL @ ''/repositories/'' @ REPOSITORY_ID, query)])"

text \<open>A store that gives the same outcome to every call.\<close>

definition always :: "js_error + 'd response \<Rightarrow> 'd store" where
  "always outcome = (\<lambda>url body. outcome)"

section \<open>Notions used to state the properties\<close>

text \<open>
  The entries that a row of the result stands for: its node, and its edge when the row has
  a source.
\<close>

definition node_entry :: "binding \<Rightarrow> json" where
  "node_entry b =
     JObj [(''id'', JStr (the (b ''node''))),
           (''label'', JStr (case b ''label'' of None \<Rightarrow> [] | Some l \<Rightarrow> l)),
           (''comment'', JStr (case b ''comment'' of None \<Rightarrow> [] | Some c \<Rightarrow> c))]"

definition edge_entry :: "binding \<Rightarrow> json" where
  "edge_entry b =
     JObj [(''source'', JStr (the (b ''source''))),
           (''target'', JStr (the (b ''node''))),
           (''type'', JStr (case b ''relationshipType'' of None \<Rightarrow> [] | Some t \<Rightarrow> t))]"

text \<open>A result of three rows whose second row has no source.\<close>

definition three_rows :: "binding list" where
  "three_rows =
     [[''node'' \<mapsto> ''http://conceptual-machines.org/Term_1'', ''label'' \<mapsto> ''Fruit'',
       ''source'' \<mapsto> ''http://conceptual-machines.org/Root'',
       ''relationshipType'' \<mapsto> ''http://www.w3.org/2004/02/skos/core#narrower''],
      [''node'' \<mapsto> ''http://conceptual-machines.org/Root''],
      [''node'' \<mapsto> ''http://conceptual-machines.org/Term_1'', ''comment'' \<mapsto> ''A fruit'',
       ''source'' \<mapsto> ''http://conceptual-machines.org/Root'']]"

text \<open>A result of two rows whose second row has a label and no node.\<close>

definition rows_without_node :: "binding list" where
  "rows_without_node =
     [[''node'' \<mapsto> ''http://conceptual-machines.org/Root''],
      [''label'' \<mapsto> ''Fruit'']]"

text \<open>The two requests of the specification's examples.\<close>

definition fruit :: insert_body where
  "fruit = \<lparr>label = Some ''Fruit'', comment = None, parentId = None\<rparr>"

definition apple :: insert_body where
  "apple = \<lparr>label = Some ''Apple'', comment = Some ''A fruit'',
            parentId = Some ''http://example.org/Fruit''\<rparr>"

text \<open>The replies of \<open>insertTerm\<close> to a store response.\<close>

definition success_reply :: "int \<Rightarrow> http_reply" where
  "success_reply now =
     \<lparr>statusCode = 200,
      jsonBody = JObj [(''message'', JStr ''Term inserted successfully!''),
                       (''termId'', JStr (termId now))]\<rparr>"

definition warning_reply :: "int \<Rightarrow> http_reply" where
  "warning_reply code =
     \<lparr>statusCode = code,
      jsonBody = JObj [(''message'', JStr ''Term might have been inserted, but received unexpected status.''),
                       (''graphDbStatus'', JNum code)]\<rparr>"

definition error_reply :: "int \<Rightarrow> json \<Rightarrow> http_reply" where
  "error_reply code payload = \<lparr>statusCode = code, jsonBody = JObj [(''error'', payload)]\<rparr>"

text \<open>
  The text of the update before and after its hierarchy statement; neither depends on the
  parent.
\<close>

definition update_head :: "int \<Rightarrow> string option \<Rightarrow> string option \<Rightarrow> string" where
  "update_head now l c =
     [NEWLINE] @ ''     PREFIX skos: <http://www.w3.org/2004/02/skos/core#>'' @
     [NEWLINE] @ ''     INSERT DATA {'' @
     [NEWLINE] @ ''         <'' @ termUri now @ ''> skos:prefLabel '' @ [DQUOTE]
       @ interpolate (escapeSparqlString l) @ [DQUOTE] @ '' .'' @
     [NEWLINE] @ ''         '' @
       (if truthy_text c
        then ''<'' @ termUri now @ ''> skos:note '' @ [DQUOTE]
               @ interpolate (escapeSparqlString c) @ [DQUOTE] @ '' .''
        else []) @
     [NEWLINE] @ ''         ''"

definition update_tail :: string where
  "update_tail = [NEWLINE] @ ''     }'' @ [NEWLINE] @ ''    ''"

text \<open>
  The statements that the store reads in the one update a request sends, and the
  statements that the request stands for: a label assertion for the new identifier, a note
  assertion when the comment is not empty, and a hierarchy assertion under the parent
  when it is provided (not empty), under the root otherwise.
\<close>

definition sent_statements :: "json option store \<Rightarrow> int \<Rightarrow> insert_body \<Rightarrow> triple list option" where
  "sent_statements post now body =
     (case snd (insertTerm post now body) of
        [(url, text)] \<Rightarrow> statements text
      | _ \<Rightarrow> None)"

definition expected_statements :: "int \<Rightarrow> insert_body \<Rightarrow> triple list" where
  "expected_statements now body =
     [(Iri (termUri now), Iri (SKOS @ ''prefLabel''), Literal (the (label body)))]
     @ (if truthy_text (comment body)
        then [(Iri (termUri now), Iri (SKOS @ ''note''), Literal (the (comment body)))]
        else [])
     @ [(Iri (if truthy_text (parentId body) then the (parentId body) else BASE_URI @ ''Root''),
         Iri (SKOS @ ''narrower''), Iri (termUri now))]"

definition label_assertions :: "string \<Rightarrow> triple list \<Rightarrow> triple list" where
  "label_assertions u S = filter (\<lambda>t. fst t = Iri u \<and> fst (snd t) = Iri (SKOS @ ''prefLabel'')) S"

definition note_assertions :: "string \<Rightarrow> triple list \<Rightarrow> triple list" where
  "note_assertions u S = filter (\<lambda>t. fst t = Iri u \<and> fst (snd t) = Iri (SKOS @ ''note'')) S"

definition narrower_than :: "string \<Rightarrow> string \<Rightarrow> triple" where
  "narrower_than parent u = (Iri parent, Iri (SKOS @ ''narrower''), Iri u)"

text \<open>A parent is well formed when it can stand between the angle brackets of an IRI reference.\<close>

fun IRIREF_ok :: "string option \<Rightarrow> bool" where
  "IRIREF_ok None = True"
| "IRIREF_ok (Some p) = list_all iri_char p"

text \<open>
  A request whose parent closes the angle bracket and goes on with a statement of its own
  about the identifier that the clock reading 1700000000000 gives.
\<close>

definition injection :: insert_body where
  "injection =
     \<lparr>label = Some ''Fruit'', comment = None,
      parentId = Some (''http://conceptual-machines.org/Term_1700000000000> skos:prefLabel '' @ [DQUOTE]
                        @ ''Other'' @ [DQUOTE] @ '' . <http://example.org/P'')\<rparr>"

text \<open>The statements that the store reads in the update of this request.\<close>

definition injected_statements :: "triple list" where
  "injected_statements =
     [(Iri ''http://conceptual-machines.org/Term_1700000000000'', Iri (SKOS @ ''prefLabel''),
       Literal ''Fruit''),
      (Iri ''http://conceptual-machines.org/Term_1700000000000'', Iri (SKOS @ ''prefLabel''),
       Literal ''Other''),
      (Iri ''http://example.org/P'', Iri (SKOS @ ''narrower''),
       Iri ''http://conceptual-machines.org/Term_1700000000000'')]"

text \<open>The escaping, character by character.\<close>

definition escape_char :: "char \<Rightarrow> string" where
  "escape_char x =
     (if x = BACKSLASH then [BACKSLASH, BACKSLASH]
      else if x = DQUOTE then [BACKSLASH, DQUOTE]
      else if x = NEWLINE then [BACKSLASH, CHR ''n'']
      else if x = CARRIAGE_RETURN then [BACKSLASH, CHR ''r'']
      else if x = TAB then [BACKSLASH, CHR ''t'']
      else [x])"

section \<open>Properties of the escaping\<close>

lemma replace_append: "replace c r (xs @ ys) = replace c r xs @ replace c r ys"
  by (induction xs) simp_all

lemma replace_concat_map:
  "replace c r (concat (map f s)) = concat (map (\<lambda>x. replace c r (f x)) s)"
  by (induction s) (simp_all add: replace_append)

lemma replace_singletons: "replace c r s = concat (map (\<lambda>x. replace c r [x]) s)"
  using replace_concat_map [of c r "\<lambda>x. [x]" s] by simp

lemma replace_substitute: "replace c r s = substitute (c, r) s"
  by (induction s) (simp_all add: substitute_def)

lemma five_replaces_char:
  "replace TAB [BACKSLASH, CHR ''t'']
     (replace CARRIAGE_RETURN [BACKSLASH, CHR ''r'']
       (replace NEWLINE [BACKSLASH, CHR ''n'']
         (replace DQUOTE [BACKSLASH, DQUOTE]
           (replace BACKSLASH [BACKSLASH, BACKSLASH] [x])))) = escape_char x"
  by (simp add: escape_char_def)

lemma five_replaces_charwise:
  "replace TAB [BACKSLASH, CHR ''t'']
     (replace CARRIAGE_RETURN [BACKSLASH, CHR ''r'']
       (replace NEWLINE [BACKSLASH, CHR ''n'']
         (replace DQUOTE [BACKSLASH, DQUOTE]
           (replace BACKSLASH [BACKSLASH, BACKSLASH] s)))) = concat (map escape_char s)"
proof -
  have "replace BACKSLASH [BACKSLASH, BACKSLASH] s
        = concat (map (\<lambda>x. replace BACKSLASH [BACKSLASH, BACKSLASH] [x]) s)"
    by (rule replace_singletons)
  then show ?thesis
    by (simp only: replace_concat_map five_replaces_char)
qed

lemma escapeSparqlString_charwise:
  "escapeSparqlString (Some s) = Some (concat (map escape_char s))"
  by (cases s) (simp_all add: escapeSparqlString_def five_replaces_charwise del: replace.simps)

lemma string_body_escaped:
  "string_body (concat (map escape_char s) @ DQUOTE # r) = Some (s, r)"
  by (induction s) (simp_all add: escape_char_def ECHAR_def)

text \<open>
  C1. For every string, escaping it with \<open>escapeSparqlString\<close> and embedding the result
  between double quotes gives a literal that the string-literal grammar of the query
  language reads back as the original string.
\<close>

theorem escape_round_trip:
  "STRING_LITERAL2 ([DQUOTE] @ interpolate (escapeSparqlString (Some s)) @ [DQUOTE]) = Some s"
  by (simp add: STRING_LITERAL2_def interpolate_def escapeSparqlString_charwise
      string_body_escaped del: string_body.simps)

text \<open>
  C7. For a non-empty input, \<open>escapeSparqlString\<close> is the five substitutions backslash,
  double quote, newline, carriage return, tab, applied in this order, each to the output
  of the one before; an absent input and the empty input are returned unchanged.
\<close>

theorem escape_is_five_substitutions_in_order:
  "(s \<noteq> [] \<longrightarrow> escapeSparqlString (Some s) = Some (apply_in_order five_substitutions s))
   \<and> map fst five_substitutions = [BACKSLASH, DQUOTE, NEWLINE, CARRIAGE_RETURN, TAB]
   \<and> escapeSparqlString None = None
   \<and> escapeSparqlString (Some []) = Some []"
  by (simp add: escapeSparqlString_def apply_in_order_def five_substitutions_def
      replace_substitute)

theorem escape_is_five_substitutions_in_order_witness:
  "[CHR ''a'', DQUOTE, BACKSLASH] \<noteq> []
   \<and> escapeSparqlString (Some [CHR ''a'', DQUOTE, BACKSLASH])
       = Some (apply_in_order five_substitutions [CHR ''a'', DQUOTE, BACKSLASH])
   \<and> apply_in_order five_substitutions [CHR ''a'', DQUOTE, BACKSLASH]
       = [CHR ''a'', BACKSLASH, DQUOTE, BACKSLASH, BACKSLASH]"
proof -
  have "apply_in_order five_substitutions [CHR ''a'', DQUOTE, BACKSLASH]
        = [CHR ''a'', BACKSLASH, DQUOTE, BACKSLASH, BACKSLASH]"
    by (simp add: apply_in_order_def five_substitutions_def substitute_def)
  with escape_is_five_substitutions_in_order [of "[CHR ''a'', DQUOTE, BACKSLASH]"]
  show ?thesis by simp
qed

section \<open>Properties of the insertion handler\<close>

lemma escape_char_not_empty: "escape_char x \<noteq> []"
  by (simp add: escape_char_def)

lemma escapeSparqlString_truthy:
  "truthy_text (escapeSparqlString v) = truthy_text v"
proof (cases v)
  case None
  then show ?thesis by (simp add: escapeSparqlString_def)
next
  case (Some s)
  then show ?thesis
    by (cases s) (simp_all add: truthy_text_def escapeSparqlString_charwise escape_char_not_empty)
qed

text \<open>
  C2. When the label of the request is absent or the empty string, \<open>insertTerm\<close> replies
  with status 400 and an error payload, and makes no call to the store: no update text is
  sent.
\<close>

theorem missing_label_rejected:
  "label body = None \<or> label body = Some [] \<Longrightarrow>
   insertTerm post now body =
     (Inr (error_reply 400 (JStr ''Term label is required.'')), [])"
  by (auto simp: insertTerm_def truthy_text_def error_reply_def)

theorem missing_label_rejected_witness:
  "(label (fruit\<lparr>label := Some []\<rparr>) = None \<or> label (fruit\<lparr>label := Some []\<rparr>) = Some [])
   \<and> insertTerm (always (Inr \<lparr>status = 204, data = None\<rparr>)) 1700000000000
        (fruit\<lparr>label := Some []\<rparr>) =
     (Inr \<lparr>statusCode = 400, jsonBody = JObj [(''error'', JStr ''Term label is required.'')]\<rparr>, [])"
  using missing_label_rejected [of "fruit\<lparr>label := Some []\<rparr>"
      "always (Inr \<lparr>status = 204, data = None\<rparr>)" 1700000000000]
  by (simp add: fruit_def error_reply_def)

text \<open>
  C5, as the code has it. A store response that the call returns (it is not thrown) with a
  status other than 204 is answered with that status and the warning message. A store
  response that arrives with a thrown error is answered with that status too, and with an
  error payload: the store's data when it is truthy, the generic failure message
  otherwise. Neither reply is the success reply.
\<close>

theorem unexpected_status_passed_through:
  assumes "truthy_text (label body)"
  shows "(status r \<noteq> 204 \<longrightarrow>
            fst (insertTerm (always (Inr r)) now body) = Inr (warning_reply (status r))
            \<and> warning_reply (status r) \<noteq> success_reply now)
         \<and> fst (insertTerm (always (Inl (AxiosError (Some r) m))) now body) =
              Inr (error_reply (status r)
                    (if truthy (data r) then the (data r)
                     else JStr ''Failed to insert Term into GraphDB.''))
         \<and> error_reply (status r)
              (if truthy (data r) then the (data r)
               else JStr ''Failed to insert Term into GraphDB.'') \<noteq> success_reply now"
  using assms
  by (simp add: insertTerm_def always_def catch_block_def error_response_def Let_def
      warning_reply_def success_reply_def error_reply_def)

theorem unexpected_status_passed_through_witness:
  "truthy_text (label fruit) \<and> (200::int) \<noteq> 204
   \<and> fst (insertTerm (always (Inr \<lparr>status = 200, data = Some (JStr ''done'')\<rparr>)) 1700000000000 fruit) =
       Inr \<lparr>statusCode = 200,
            jsonBody = JObj [(''message'', JStr ''Term might have been inserted, but received unexpected status.''),
                             (''graphDbStatus'', JNum 200)]\<rparr>
   \<and> fst (insertTerm (always (Inl (AxiosError (Some \<lparr>status = 200, data = Some (JStr ''done'')\<rparr>) [])))
            1700000000000 fruit) =
       Inr \<lparr>statusCode = 200, jsonBody = JObj [(''error'', JStr ''done'')]\<rparr>"
  using unexpected_status_passed_through
    [of fruit "\<lparr>status = 200, data = Some (JStr ''done'')\<rparr>" 1700000000000 "[]"]
  by (simp add: fruit_def truthy_text_def truthy_def warning_reply_def error_reply_def)

text \<open>
  C5, as the specification states it, fails: the store answers 400 with a body, the call
  throws, and the reply carries status 400 with the store's body as error payload; it is
  not the reply with the warning message.
\<close>

theorem rejected_response_has_no_warning:
  "fst (insertTerm
         (always (Inl (AxiosError (Some \<lparr>status = 400, data = Some (JStr ''MALFORMED QUERY'')\<rparr>)
                         ''Request failed with status code 400'')))
         1700000000000 fruit)
     = Inr \<lparr>statusCode = 400, jsonBody = JObj [(''error'', JStr ''MALFORMED QUERY'')]\<rparr>
   \<and> fst (insertTerm
         (always (Inl (AxiosError (Some \<lparr>status = 400, data = Some (JStr ''MALFORMED QUERY'')\<rparr>)
                         ''Request failed with status code 400'')))
         1700000000000 fruit)
     \<noteq> Inr (warning_reply 400)"
  by (simp add: insertTerm_def always_def catch_block_def error_response_def Let_def
      truthy_text_def truthy_def fruit_def warning_reply_def)

lemma digit_inject:
  assumes "a < 10" and "b < 10" and "''0123456789'' ! a = ''0123456789'' ! b"
  shows "a = b"
proof -
  have "distinct ''0123456789''" by simp
  with assms show ?thesis by (simp add: nth_eq_iff_index_eq)
qed

lemma digits_not_empty: "digits n \<noteq> []"
  by (subst digits.simps) simp

lemma digits_inject: "digits a = digits b \<Longrightarrow> a = b"
proof (induction a arbitrary: b rule: digits.induct)
  case (1 n)
  show ?case
  proof (cases "n < 10")
    case True
    then have n: "digits n = [''0123456789'' ! n]" by (subst digits.simps) simp
    show ?thesis
    proof (cases "b < 10")
      case True
      then have "digits b = [''0123456789'' ! b]" by (subst digits.simps) simp
      with n "1.prems" \<open>n < 10\<close> True show ?thesis by (simp add: digit_inject)
    next
      case False
      then have "digits b = digits (b div 10) @ [''0123456789'' ! (b mod 10)]"
        by (subst digits.simps) simp
      with n "1.prems" digits_not_empty [of "b div 10"] show ?thesis by simp
    qed
  next
    case False
    then have n: "digits n = digits (n div 10) @ [''0123456789'' ! (n mod 10)]"
      by (subst digits.simps) simp
    show ?thesis
    proof (cases "b < 10")
      case True
      then have "digits b = [''0123456789'' ! b]" by (subst digits.simps) simp
      with n "1.prems" digits_not_empty [of "n div 10"] show ?thesis by simp
    next
      case b: False
      then have "digits b = digits (b div 10) @ [''0123456789'' ! (b mod 10)]"
        by (subst digits.simps) simp
      with n "1.prems" have eq: "digits (n div 10) = digits (b div 10)"
        and d: "''0123456789'' ! (n mod 10) = ''0123456789'' ! (b mod 10)"
        by simp_all
      from "1.IH" [OF False eq] have "n div 10 = b div 10" .
      moreover from d have "n mod 10 = b mod 10"
        by (intro digit_inject) simp_all
      ultimately show ?thesis by (metis div_mult_mod_eq)
    qed
  qed
qed

lemma digits_no_minus: "CHR ''-'' \<notin> set (digits n)"
proof (induction n rule: digits.induct)
  case (1 n)
  have d: "''0123456789'' ! k \<noteq> CHR ''-''" if "k < 10" for k
  proof -
    from that have "''0123456789'' ! k \<in> set ''0123456789''" by (intro nth_mem) simp
    then show ?thesis by auto
  qed
  show ?case
  proof (cases "n < 10")
    case True
    then show ?thesis by (subst digits.simps) (simp add: d [THEN not_sym])
  next
    case False
    with 1 show ?thesis by (subst digits.simps) (simp add: d [THEN not_sym])
  qed
qed

lemma numberToString_inject: "numberToString a = numberToString b \<Longrightarrow> a = b"
proof -
  assume eq: "numberToString a = numberToString b"
  have neg: False if "x < 0" "\<not> y < 0" "numberToString x = numberToString y" for x y
  proof -
    from that have "CHR ''-'' # digits (nat (- x)) = digits (nat y)"
      by (simp add: numberToString_def)
    then have "CHR ''-'' \<in> set (digits (nat y))" by (metis list.set_intros(1))
    with digits_no_minus show False by blast
  qed
  show ?thesis
  proof (cases "a < 0")
    case True
    show ?thesis
    proof (cases "b < 0")
      case b: True
      with True eq have "digits (nat (- a)) = digits (nat (- b))"
        by (simp add: numberToString_def)
      then have "nat (- a) = nat (- b)" by (rule digits_inject)
      with True b show ?thesis by simp
    next
      case False
      with True eq neg show ?thesis by blast
    qed
  next
    case False
    show ?thesis
    proof (cases "b < 0")
      case True
      with False eq neg [of b a] show ?thesis by simp
    next
      case b: False
      with False eq have "digits (nat a) = digits (nat b)"
        by (simp add: numberToString_def)
      then have "nat a = nat b" by (rule digits_inject)
      with False b show ?thesis by simp
    qed
  qed
qed

text \<open>
  The identifier is the fixed prefix followed by the clock reading in decimal, so two
  identifiers are equal exactly when the two clock readings are.
\<close>

lemma termId_eq_iff: "termId a = termId b \<longleftrightarrow> a = b"
  by (auto simp: termId_def dest: numberToString_inject)

lemma termId_example: "termId 1700000000000 = ''Term_1700000000000''"
  by (simp add: termId_def numberToString_def digits.simps)

text \<open>
  C8. The identifier is the fixed prefix with a value derived from the time, and the
  identifiers of two requests should differ. The second part fails on the code: two
  different requests handled at the same reading of the clock both succeed and both get
  the identifier \<^verbatim>\<open>Term_1700000000000\<close>.
\<close>

theorem same_clock_same_identifier:
  "fst (insertTerm (always (Inr \<lparr>status = 204, data = None\<rparr>)) 1700000000000 fruit) =
     Inr \<lparr>statusCode = 200,
          jsonBody = JObj [(''message'', JStr ''Term inserted successfully!''),
                           (''termId'', JStr ''Term_1700000000000'')]\<rparr>
   \<and> fst (insertTerm (always (Inr \<lparr>status = 204, data = None\<rparr>)) 1700000000000 apple) =
     Inr \<lparr>statusCode = 200,
          jsonBody = JObj [(''message'', JStr ''Term inserted successfully!''),
                           (''termId'', JStr ''Term_1700000000000'')]\<rparr>"
  by (simp add: insertTerm_def always_def truthy_text_def Let_def termId_example
      fruit_def apple_def)

text \<open>
  C9. With a provided (non-empty) parent, the one update sent to the store is the text
  before the hierarchy statement, the parent character for character between angle
  brackets, and the rest of the statement; the text around the parent does not depend on
  it, and nothing is required of the parent's characters.
\<close>

theorem parentId_embedded_verbatim:
  assumes "truthy_text (label body)" and "p \<noteq> []"
  shows "snd (insertTerm post now (body\<lparr>parentId := Some p\<rparr>)) =
           [(GRAPHDB_SPARQL_ENDPOINT,
             update_head now (label body) (comment body)
               @ ''<'' @ p @ ''> skos:narrower <'' @ termUri now @ ''> .'' @ update_tail)]"
  using assms
  by (simp add: insertTerm_def sparqlUpdate_def truthy_text_def interpolate_def Let_def
      update_head_def update_tail_def escapeSparqlString_truthy [unfolded truthy_text_def])

theorem parentId_embedded_verbatim_witness:
  "truthy_text (label fruit) \<and> ''a> skos:narrower <b'' \<noteq> []
   \<and> snd (insertTerm (always (Inr \<lparr>status = 204, data = None\<rparr>)) 1700000000000
            (fruit\<lparr>parentId := Some ''a> skos:narrower <b''\<rparr>)) =
       [(''http://localhost:7200/repositories/conceptual-repo/statements'',
         [NEWLINE] @ ''     PREFIX skos: <http://www.w3.org/2004/02/skos/core#>'' @
         [NEWLINE] @ ''     INSERT DATA {'' @
         [NEWLINE] @ ''         <http://conceptual-machines.org/Term_1700000000000> skos:prefLabel ''
           @ [DQUOTE] @ ''Fruit'' @ [DQUOTE] @ '' .'' @
         [NEWLINE] @ ''         '' @
         [NEWLINE] @ ''         <a> skos:narrower <b> skos:narrower <http://conceptual-machines.org/Term_1700000000000> .'' @
         [NEWLINE] @ ''     }'' @
         [NEWLINE] @ ''    '')]"
proof -
  have "termUri 1700000000000 = ''http://conceptual-machines.org/Term_1700000000000''"
    by (simp add: termUri_def termId_def BASE_URI_def numberToString_def digits.simps)
  with parentId_embedded_verbatim
    [of fruit "''a> skos:narrower <b''" "always (Inr \<lparr>status = 204, data = None\<rparr>)" 1700000000000]
  show ?thesis
    by (simp add: fruit_def truthy_text_def update_head_def update_tail_def interpolate_def
        escapeSparqlString_def GRAPHDB_SPARQL_ENDPOINT_def GRAPHDB_URL_def REPOSITORY_ID_def)
qed

section \<open>Properties of the graph handler\<close>

lemma push_binding_node:
  "b ''node'' \<noteq> None \<Longrightarrow>
   push_binding pd b =
     Inr \<lparr>nodes = nodes pd @ [node_entry b],
          edges = edges pd @ (if b ''source'' \<noteq> None then [edge_entry b] else [])\<rparr>"
  by (auto simp: push_binding_def node_entry_def edge_entry_def value_or_empty_def Let_def
      split: option.splits)

lemma push_binding_no_node:
  "b ''node'' = None \<Longrightarrow>
   push_binding pd b = Inl (TypeError ''Cannot read properties of undefined (reading value)'')"
  by (simp add: push_binding_def)

lemma forEach_all_nodes:
  "\<forall>b\<in>set rows. b ''node'' \<noteq> None \<Longrightarrow>
   forEach rows pd =
     Inr \<lparr>nodes = nodes pd @ map node_entry rows,
          edges = edges pd @ map edge_entry (filter (\<lambda>b. b ''source'' \<noteq> None) rows)\<rparr>"
proof (induction rows arbitrary: pd)
  case Nil
  then show ?case by simp
next
  case (Cons b rows)
  then show ?case by (simp add: push_binding_node)
qed

lemma forEach_missing_node:
  "\<exists>b\<in>set rows. b ''node'' = None \<Longrightarrow>
   forEach rows pd = Inl (TypeError ''Cannot read properties of undefined (reading value)'')"
proof (induction rows arbitrary: pd)
  case Nil
  then show ?case by simp
next
  case (Cons b rows)
  show ?case
  proof (cases "b ''node''")
    case None
    then show ?thesis by (simp add: push_binding_no_node)
  next
    case (Some n)
    with Cons.prems have "\<exists>b\<in>set rows. b ''node'' = None" by auto
    with Some Cons.IH show ?thesis by (simp add: push_binding_node)
  qed
qed

text \<open>
  C4, as the code has it. When every row of the result has a node binding, the flattening
  gives one node entry per row, in the order of the rows and without removing repeated
  identifiers, with the empty string for an absent label or comment, and one edge entry
  for each row that has a source binding, in the order of the rows; this is what the
  handler sends with status 200.
\<close>

theorem flatten_rows_with_nodes:
  assumes "\<forall>b\<in>set rows. b ''node'' \<noteq> None"
  shows "flatten rows =
           Inr \<lparr>nodes = map node_entry rows,
                edges = map edge_entry (filter (\<lambda>b. b ''source'' \<noteq> None) rows)\<rparr>
         \<and> fst (fetchGraph (always (Inr \<lparr>status = 200, data = Some rows\<rparr>))) =
           Inr \<lparr>statusCode = 200,
                jsonBody =
                  JObj [(''nodes'', JArr (map node_entry rows)),
                        (''edges'', JArr (map edge_entry
                                            (filter (\<lambda>b. b ''source'' \<noteq> None) rows)))]\<rparr>"
  using assms
  by (simp add: flatten_def fetchGraph_def graph_try_def always_def forEach_all_nodes)

theorem flatten_rows_with_nodes_witness:
  "flatten three_rows =
       Inr \<lparr>nodes =
              [JObj [(''id'', JStr ''http://conceptual-machines.org/Term_1''),
                     (''label'', JStr ''Fruit''), (''comment'', JStr [])],
               JObj [(''id'', JStr ''http://conceptual-machines.org/Root''),
                     (''label'', JStr []), (''comment'', JStr [])],
               JObj [(''id'', JStr ''http://conceptual-machines.org/Term_1''),
                     (''label'', JStr []), (''comment'', JStr ''A fruit'')]],
            edges =
              [JObj [(''source'', JStr ''http://conceptual-machines.org/Root''),
                     (''target'', JStr ''http://conceptual-machines.org/Term_1''),
                     (''type'', JStr ''http://www.w3.org/2004/02/skos/core#narrower'')],
               JObj [(''source'', JStr ''http://conceptual-machines.org/Root''),
                     (''target'', JStr ''http://conceptual-machines.org/Term_1''),
                     (''type'', JStr [])]]\<rparr>"
proof -
  have h: "\<forall>b\<in>set three_rows. b ''node'' \<noteq> None"
    by (simp add: three_rows_def)
  have "map node_entry three_rows =
      [JObj [(''id'', JStr ''http://conceptual-machines.org/Term_1''),
             (''label'', JStr ''Fruit''), (''comment'', JStr [])],
       JObj [(''id'', JStr ''http://conceptual-machines.org/Root''),
             (''label'', JStr []), (''comment'', JStr [])],
       JObj [(''id'', JStr ''http://conceptual-machines.org/Term_1''),
             (''label'', JStr []), (''comment'', JStr ''A fruit'')]]"
    by (simp add: three_rows_def node_entry_def)
  moreover have "map edge_entry (filter (\<lambda>b. b ''source'' \<noteq> None) three_rows) =
      [JObj [(''source'', JStr ''http://conceptual-machines.org/Root''),
             (''target'', JStr ''http://conceptual-machines.org/Term_1''),
             (''type'', JStr ''http://www.w3.org/2004/02/skos/core#narrower'')],
       JObj [(''source'', JStr ''http://conceptual-machines.org/Root''),
             (''target'', JStr ''http://conceptual-machines.org/Term_1''),
             (''type'', JStr [])]]"
    by (simp add: three_rows_def edge_entry_def)
  ultimately show ?thesis
    using flatten_rows_with_nodes [OF h] by simp
qed

text \<open>
  C4, as the specification states it for every result, fails: on a result of two rows
  whose second row has no node binding the flattening throws, so it gives no node entry
  at all, and the handler replies with status 500.
\<close>

theorem row_without_node_gives_no_entries:
  "flatten rows_without_node =
     Inl (TypeError ''Cannot read properties of undefined (reading value)'')
   \<and> fst (fetchGraph (always (Inr \<lparr>status = 200, data = Some rows_without_node\<rparr>))) =
       Inr \<lparr>statusCode = 500,
            jsonBody = JObj [(''error'', JStr ''Failed to fetch data from GraphDB.'')]\<rparr>"
  by (simp add: flatten_def rows_without_node_def push_binding_def fetchGraph_def graph_try_def
      always_def catch_block_def error_response_def)

text \<open>
  C10. When some row of the result has no node binding, reading its value throws inside
  the flattening, the handler catches the error, and the whole request is answered with
  status 500 and the generic failure message, not with a partial graph; no exception
  escapes the handler.
\<close>

theorem missing_node_fails_whole_request:
  assumes "\<exists>b\<in>set rows. b ''node'' = None"
  shows "flatten rows = Inl (TypeError ''Cannot read properties of undefined (reading value)'')
         \<and> fst (fetchGraph (always (Inr \<lparr>status = 200, data = Some rows\<rparr>))) =
           Inr (error_reply 500 (JStr ''Failed to fetch data from GraphDB.''))"
  using assms
  by (simp add: fetchGraph_def graph_try_def always_def flatten_def forEach_missing_node
      catch_block_def error_response_def error_reply_def)

theorem missing_node_fails_whole_request_witness:
  "fst (fetchGraph (always (Inr \<lparr>status = 200,
                                   data = Some (three_rows @ [[''label'' \<mapsto> ''Pear'']])\<rparr>))) =
       Inr \<lparr>statusCode = 500,
            jsonBody = JObj [(''error'', JStr ''Failed to fetch data from GraphDB.'')]\<rparr>"
proof -
  have h: "\<exists>b\<in>set (three_rows @ [[''label'' \<mapsto> ''Pear'']]). b ''node'' = None"
    by simp
  show ?thesis
    using missing_node_fails_whole_request [OF h] by (simp add: error_reply_def)
qed

section \<open>Failures of the transport\<close>

text \<open>
  C6. When the store cannot be reached (the call throws an error without a response),
  \<open>insertTerm\<close>, for a request that passes the validation and so reaches the store, and
  \<open>fetchGraph\<close> both reply with status 500 and their generic failure message; the
  handlers return a reply, no exception escapes them.
\<close>

theorem transport_failure_gives_500:
  assumes "truthy_text (label body)"
  shows "fst (insertTerm (always (Inl (AxiosError None m))) now body) =
           Inr (error_reply 500 (JStr ''Failed to insert Term into GraphDB.''))
         \<and> fst (fetchGraph (always (Inl (AxiosError None m)))) =
           Inr (error_reply 500 (JStr ''Failed to fetch data from GraphDB.''))"
  using assms
  by (simp add: insertTerm_def fetchGraph_def always_def catch_block_def error_response_def
      Let_def error_reply_def)

theorem transport_failure_gives_500_witness:
  "truthy_text (label apple)
   \<and> fst (insertTerm (always (Inl (AxiosError None ''connect ECONNREFUSED 127.0.0.1:7200'')))
            1700000000000 apple) =
       Inr \<lparr>statusCode = 500,
            jsonBody = JObj [(''error'', JStr ''Failed to insert Term into GraphDB.'')]\<rparr>
   \<and> fst (fetchGraph (always (Inl (AxiosError None ''connect ECONNREFUSED 127.0.0.1:7200'')))) =
       Inr \<lparr>statusCode = 500,
            jsonBody = JObj [(''error'', JStr ''Failed to fetch data from GraphDB.'')]\<rparr>"
  using transport_failure_gives_500
    [of apple "''connect ECONNREFUSED 127.0.0.1:7200''" 1700000000000]
  by (simp add: apple_def truthy_text_def error_reply_def)

section \<open>The statements of the update\<close>

lemma IRIREF_body_chars:
  "list_all iri_char u \<Longrightarrow> IRIREF_body (u @ CHR ''>'' # rest) = Some (u, rest)"
  by (induction u) (auto simp: iri_char_def)

lemma digit_iri_char: "d < 10 \<Longrightarrow> iri_char (''0123456789'' ! d)"
proof -
  assume "d < 10"
  then have "''0123456789'' ! d \<in> set ''0123456789''"
    by (intro nth_mem) simp
  moreover have "\<forall>c\<in>set ''0123456789''. iri_char c"
    by (simp add: iri_char_def)
  ultimately show ?thesis by blast
qed

lemma digits_iri_chars: "list_all iri_char (digits n)"
proof (induction n rule: digits.induct)
  case (1 n)
  show ?case
  proof (cases "n < 10")
    case True
    then show ?thesis by (subst digits.simps) (simp add: digit_iri_char)
  next
    case False
    with 1 show ?thesis by (subst digits.simps) (simp add: digit_iri_char)
  qed
qed

lemma termUri_iri_chars: "list_all iri_char (termUri now)"
proof -
  have "list_all iri_char BASE_URI" "list_all iri_char ''Term_''" "list_all iri_char ''-''"
    by (simp_all add: BASE_URI_def iri_char_def)
  then show ?thesis
    by (simp add: termUri_def termId_def numberToString_def digits_iri_chars)
qed

lemma escapeSparqlString_None: "escapeSparqlString None = None"
  by (simp add: escapeSparqlString_def)

lemmas lex_simps =
  sparqlUpdate_def escapeSparqlString_charwise escapeSparqlString_None interpolate_def
  truthy_text_def escape_char_not_empty WS_def name_char_def iri_char_def IRIREF_body_chars
  string_body_escaped BASE_URI_def SKOS_def

lemma tokenize_sparqlUpdate:
  assumes "list_all iri_char u" and "IRIREF_ok par"
  shows "tokenize (sparqlUpdate u (escapeSparqlString (Some l)) (escapeSparqlString c) par) =
     Some ([NAME ''PREFIX'', NAME ''skos:'', IRIREF SKOS, NAME ''INSERT'', NAME ''DATA'', LBRACE,
            IRIREF u, NAME ''skos:prefLabel'', STRING l, DOT]
           @ (if truthy_text c then [IRIREF u, NAME ''skos:note'', STRING (the c), DOT] else [])
           @ [IRIREF (if truthy_text par then the par else BASE_URI @ ''Root''),
              NAME ''skos:narrower'', IRIREF u, DOT, RBRACE])"
proof (cases c)
  case None
  show ?thesis
  proof (cases par)
    case None
    with \<open>c = None\<close> assms show ?thesis
      by (simp add: lex_simps del: string_body.simps)
  next
    case (Some p)
    with \<open>c = None\<close> assms show ?thesis
      by (simp add: lex_simps del: string_body.simps)
  qed
next
  case (Some c')
  show ?thesis
  proof (cases par)
    case None
    with \<open>c = Some c'\<close> assms show ?thesis
      by (simp add: lex_simps del: string_body.simps)
  next
    case (Some p)
    with \<open>c = Some c'\<close> assms show ?thesis
      by (simp add: lex_simps del: string_body.simps)
  qed
qed


lemma statements_sparqlUpdate:
  assumes "list_all iri_char u" and "IRIREF_ok par"
  shows "statements (sparqlUpdate u (escapeSparqlString (Some l)) (escapeSparqlString c) par) =
     Some ([(Iri u, Iri (SKOS @ ''prefLabel''), Literal l)]
           @ (if truthy_text c then [(Iri u, Iri (SKOS @ ''note''), Literal (the c))] else [])
           @ [(Iri (if truthy_text par then the par else BASE_URI @ ''Root''),
               Iri (SKOS @ ''narrower''), Iri u)])"
  by (simp add: statements_def tokenize_sparqlUpdate [OF assms] expand_def SKOS_def
      del: tokenize.simps)

text \<open>
  C3, as the code has it. For a request with a non-empty label whose parent, when there is
  one, has only characters that an IRI reference can hold, the update sent to the store
  holds exactly the expected statements: one label assertion for the new identifier, a
  note assertion if and only if the comment is not empty, and the hierarchy assertion
  that makes the new identifier narrower than the parent when it is provided, narrower
  than the root otherwise.
\<close>

theorem update_statements:
  assumes "truthy_text (label body)" and "IRIREF_ok (parentId body)"
  shows "sent_statements post now body = Some (expected_statements now body)
         \<and> length (label_assertions (termUri now) (expected_statements now body)) = 1
         \<and> (note_assertions (termUri now) (expected_statements now body) \<noteq> []
              \<longleftrightarrow> truthy_text (comment body))
         \<and> narrower_than (if truthy_text (parentId body) then the (parentId body)
                           else BASE_URI @ ''Root'') (termUri now)
             \<in> set (expected_statements now body)"
proof -
  from assms(1) obtain l where l: "label body = Some l"
    by (cases "label body") (simp_all add: truthy_text_def)
  have "sent_statements post now body = Some (expected_statements now body)"
    using assms(1) l statements_sparqlUpdate [OF termUri_iri_chars assms(2), of now l "comment body"]
    by (simp add: sent_statements_def insertTerm_def Let_def expected_statements_def)
  moreover have "length (label_assertions (termUri now) (expected_statements now body)) = 1"
    by (simp add: label_assertions_def expected_statements_def SKOS_def)
  moreover have "note_assertions (termUri now) (expected_statements now body) \<noteq> []
              \<longleftrightarrow> truthy_text (comment body)"
    by (simp add: note_assertions_def expected_statements_def SKOS_def)
  moreover have "narrower_than (if truthy_text (parentId body) then the (parentId body)
                           else BASE_URI @ ''Root'') (termUri now)
             \<in> set (expected_statements now body)"
    by (simp add: narrower_than_def expected_statements_def)
  ultimately show ?thesis by blast
qed

lemma termUri_example: "termUri 1700000000000 = ''http://conceptual-machines.org/Term_1700000000000''"
  by (simp add: termUri_def termId_def BASE_URI_def numberToString_def digits.simps)

text \<open>
  C3, as the specification states it for every request, fails: the parent of this request
  is copied into the update as it is, and the store reads two label assertions for the new
  identifier and a hierarchy assertion under another parent.
\<close>

theorem injected_parent_adds_label_assertion:
  "sent_statements (always (Inr \<lparr>status = 204, data = None\<rparr>)) 1700000000000 injection
     = Some injected_statements
   \<and> length (label_assertions (termUri 1700000000000) injected_statements) = 2
   \<and> narrower_than (the (parentId injection)) (termUri 1700000000000)
       \<notin> set injected_statements"
proof -
  have "sent_statements (always (Inr \<lparr>status = 204, data = None\<rparr>)) 1700000000000 injection
        = Some injected_statements"
    by (simp add: sent_statements_def insertTerm_def always_def injection_def Let_def
        termUri_example sparqlUpdate_def escapeSparqlString_def interpolate_def truthy_text_def
        statements_def WS_def name_char_def iri_char_def ECHAR_def expand_def SKOS_def
        injected_statements_def)
  moreover have "length (label_assertions (termUri 1700000000000) injected_statements) = 2"
    by (simp add: label_assertions_def termUri_example injected_statements_def)
  moreover have "narrower_than (the (parentId injection)) (termUri 1700000000000)
       \<notin> set injected_statements"
    by (simp add: narrower_than_def injection_def injected_statements_def)
  ultimately show ?thesis by blast
qed

theorem update_statements_witness:
  "sent_statements (always (Inr \<lparr>status = 204, data = None\<rparr>)) 1700000000000 apple =
     Some [(Iri ''http://conceptual-machines.org/Term_1700000000000'', Iri (SKOS @ ''prefLabel''), Literal ''Apple''),
           (Iri ''http://conceptual-machines.org/Term_1700000000000'', Iri (SKOS @ ''note''), Literal ''A fruit''),
           (Iri ''http://example.org/Fruit'', Iri (SKOS @ ''narrower''),
            Iri ''http://conceptual-machines.org/Term_1700000000000'')]
   \<and> sent_statements (always (Inr \<lparr>status = 204, data = None\<rparr>)) 1700000000000 fruit =
     Some [(Iri ''http://conceptual-machines.org/Term_1700000000000'', Iri (SKOS @ ''prefLabel''), Literal ''Fruit''),
           (Iri ''http://conceptual-machines.org/Root'', Iri (SKOS @ ''narrower''),
            Iri ''http://conceptual-machines.org/Term_1700000000000'')]"
proof -
  have a: "truthy_text (label apple)" "IRIREF_ok (parentId apple)"
    by (simp_all add: apple_def truthy_text_def iri_char_def)
  have f: "truthy_text (label fruit)" "IRIREF_ok (parentId fruit)"
    by (simp_all add: fruit_def truthy_text_def)
  from update_statements [OF a, of "always (Inr \<lparr>status = 204, data = None\<rparr>)" 1700000000000]
       update_statements [OF f, of "always (Inr \<lparr>status = 204, data = None\<rparr>)" 1700000000000]
  show ?thesis
    by (simp add: expected_statements_def apple_def fruit_def truthy_text_def termUri_example
        BASE_URI_def)
qed

end
